theory Spec2Isabelle
  imports Main "HOL-Library.Word"
begin

section \<open>Data model\<close>

text \<open>
  The program is a React front end. Two revisions of its main module are verified here:
  the current one (with the \<open>stopOnError\<close> flag, the query history and a list of results
  per database) and an earlier one (one optional result per database, no history, no
  connection check at dispatch). Definitions of the earlier revision carry the suffix
  \<open>_1\<close>; everything else is shared.

  A JavaScript string is a sequence of UTF-16 code units, compared by \<open>===\<close> unit by unit.
\<close>

type_synonym code_unit = "16 word"
type_synonym js_string = "code_unit list"

text \<open>\<open>type ExecutionStatus = 'waiting' | 'success' | 'error'\<close>\<close>

datatype ExecutionStatus = Waiting | Success | Error

text \<open>\<open>interface QueryResult { headers: string[]; rows: string[][] }\<close>\<close>

record QueryResult =
  headers :: "js_string list"
  rows :: "js_string list list"

text \<open>
  \<open>type ExecutionResult = {type: 'select', payload: QueryResult}
     | {type: 'mutation', payload: {affectedRows: number}} | {type: 'error', payload: string}\<close>
\<close>

datatype ExecutionResult =
    SelectResult QueryResult
  | MutationResult int
  | ErrorResult js_string

text \<open>
  \<open>interface DatabaseStatus { name; status; log?: string; results: ExecutionResult[] }\<close>
  in the current revision, and \<open>result?: QueryResult\<close> in place of \<open>results\<close> in the
  earlier one. The type parameter is the type of that last field.
\<close>

record 'r DatabaseStatus =
  ds_name :: js_string
  ds_status :: ExecutionStatus
  ds_log :: "js_string option"
  ds_results :: 'r

type_synonym Session = "ExecutionResult list DatabaseStatus list"
type_synonym Session_1 = "QueryResult option DatabaseStatus list"

section \<open>The execution screen\<close>

text \<open>
  \<open>databases.map(name => ({ name, status: 'waiting', log: undefined, results: [] }))\<close>:
  the state of \<open>ExecutionScreen\<close> when it is shown for the dispatched list \<open>databases\<close>.
\<close>

definition initialResults :: "js_string list \<Rightarrow> Session" where
  "initialResults databases =
     map (\<lambda>name. \<lparr>ds_name = name, ds_status = Waiting, ds_log = None, ds_results = []\<rparr>)
       databases"

text \<open>
  The earlier revision: \<open>databases.map(name => ({ name, status: 'waiting', log: undefined }))\<close>;
  the optional field \<open>result\<close> is left out.
\<close>

definition initialResults_1 :: "js_string list \<Rightarrow> Session_1" where
  "initialResults_1 databases =
     map (\<lambda>name. \<lparr>ds_name = name, ds_status = Waiting, ds_log = None, ds_results = None\<rparr>)
       databases"

text \<open>
  The listener of the event \<open>execution-status-update\<close>, the same in both revisions:
  \<open>setResults(prevResults => prevResults.map(res =>
     res.name === event.payload.name ? event.payload : res))\<close>.
\<close>

definition execution_status_update ::
  "'r DatabaseStatus \<Rightarrow> 'r DatabaseStatus list \<Rightarrow> 'r DatabaseStatus list" where
  "execution_status_update payload prevResults =
     map (\<lambda>res. if ds_name res = ds_name payload then payload else res) prevResults"

text \<open>The listener run on a sequence of events, in the order of arrival.\<close>

definition execution_status_updates ::
  "'r DatabaseStatus list \<Rightarrow> 'r DatabaseStatus list \<Rightarrow> 'r DatabaseStatus list" where
  "execution_status_updates payloads results0 =
     foldl (\<lambda>results payload. execution_status_update payload results) results0 payloads"

section \<open>The application: state, effects and handlers\<close>

text \<open>\<open>type Screen = 'connections' | 'query' | 'execution'\<close>\<close>

datatype Screen = Connections | Query | Execution

text \<open>\<open>type SaveOption = 'single' | 'separate' | 'none'\<close>\<close>

datatype SaveOption = Single | Separate | NoSave

record Connection =
  conn_id :: js_string
  conn_name :: js_string
  conn_host :: js_string
  conn_port :: js_string
  conn_user :: js_string
  conn_pass :: js_string
  conn_savePass :: bool

text \<open>An entry of the list of databases: \<open>{ id; name; checked: boolean; status: number }\<close>.\<close>

record DatabaseEntry =
  db_id :: js_string
  db_name :: js_string
  db_checked :: bool
  db_status :: int

text \<open>\<open>executionData: { query: string; databases: string[] } | null\<close>\<close>

record ExecutionData =
  ed_query :: js_string
  ed_databases :: "js_string list"

text \<open>
  The state variables of \<open>App\<close> that the handlers and the effect below read or write.
  The type parameter is that of \<open>DatabaseStatus\<close>.
\<close>

record 'r AppState =
  screen :: Screen
  connections :: "Connection list"
  databases :: "DatabaseEntry list"
  selectedConnectionId :: "js_string option"
  executionData :: "ExecutionData option"
  isReturnModalOpen :: bool
  lastExecutionResults :: "'r DatabaseStatus list option"
  isLoadingDatabases :: bool
  dbError :: "js_string option"

text \<open>
  What a handler does besides writing state variables, in the order of the source:
  \<open>showNotification(message)\<close> and the two \<open>invoke\<close> commands to the back end. The three
  messages of \<open>handleExecute\<close> are, in order: "Erro: Verifique a conexao, bancos de dados
  e a query." (current revision), "Erro: Nenhum banco de dados selecionado." and
  "Erro: A query nao pode estar vazia." (earlier revision).
\<close>

datatype Notice = CheckConnectionDatabasesQuery | NoDatabaseSelected | EmptyQuery

text \<open>
  The argument of \<open>invoke('execute_query_on_databases', ...)\<close>. The earlier revision passes
  \<open>selectedConnection\<close> unchecked (it may be \<open>undefined\<close>) and has no \<open>stopOnError\<close>.
\<close>

record ExecuteArgs =
  arg_connection :: "Connection option"
  arg_databases :: "js_string list"
  arg_query :: js_string
  arg_saveOption :: SaveOption
  arg_stopOnError :: "bool option"

datatype Effect =
    ShowNotification Notice
  | AddQueryToHistory js_string js_string
  | ExecuteQueryOnDatabases ExecuteArgs

fun isInvoke :: "Effect \<Rightarrow> bool" where
  "isInvoke (ShowNotification _) = False"
| "isInvoke (AddQueryToHistory _ _) = True"
| "isInvoke (ExecuteQueryOnDatabases _) = True"

text \<open>
  \<open>String.prototype.trim\<close> removes the leading and trailing code units that are
  \<open>WhiteSpace\<close> or \<open>LineTerminator\<close> in ECMAScript: TAB, LF, VT, FF, CR, SP, NBSP, the
  other space separators of Unicode, LS, PS and the byte order mark.
\<close>

definition isWhiteSpace :: "code_unit \<Rightarrow> bool" where
  "isWhiteSpace c \<longleftrightarrow>
     c \<in> {0x0009, 0x000A, 0x000B, 0x000C, 0x000D, 0x0020, 0x00A0, 0x1680,
          0x2028, 0x2029, 0x202F, 0x205F, 0x3000, 0xFEFF}
     \<or> (0x2000 \<le> c \<and> c \<le> 0x200A)"

definition trim :: "js_string \<Rightarrow> js_string" where
  "trim s = rev (dropWhile isWhiteSpace (rev (dropWhile isWhiteSpace s)))"

text \<open>\<open>const selectedConnection = connections.find(c => c.id === selectedConnectionId)\<close>\<close>

definition selectedConnection :: "'r AppState \<Rightarrow> Connection option" where
  "selectedConnection st =
     (case selectedConnectionId st of
        None \<Rightarrow> None
      | Some i \<Rightarrow> find (\<lambda>c. conn_id c = i) (connections st))"

text \<open>
  \<open>handleExecute\<close> of the current revision. The guard is
  \<open>!selectedConnection || databases.length === 0 || !query.trim()\<close>; the empty string is
  the only string that is not truthy. On the accepting path the two \<open>invoke\<close> calls are
  issued, then \<open>setExecutionData\<close> and \<open>setScreen('execution')\<close>.
\<close>

definition handleExecute ::
  "js_string \<Rightarrow> js_string list \<Rightarrow> SaveOption \<Rightarrow> bool \<Rightarrow> 'r AppState
     \<Rightarrow> 'r AppState \<times> Effect list" where
  "handleExecute query dbs saveOption stopOnError st =
     (case selectedConnection st of
        None \<Rightarrow> (st, [ShowNotification CheckConnectionDatabasesQuery])
      | Some conn \<Rightarrow>
          if dbs = [] \<or> trim query = []
          then (st, [ShowNotification CheckConnectionDatabasesQuery])
          else (st\<lparr>executionData := Some \<lparr>ed_query = query, ed_databases = dbs\<rparr>,
                   screen := Execution\<rparr>,
                [AddQueryToHistory query (conn_name conn),
                 ExecuteQueryOnDatabases
                   \<lparr>arg_connection = Some conn, arg_databases = dbs, arg_query = query,
                    arg_saveOption = saveOption, arg_stopOnError = Some stopOnError\<rparr>]))"

text \<open>
  \<open>handleExecute\<close> of the earlier revision: two separate guards, no check of the
  connection, no history entry.
\<close>

definition handleExecute_1 ::
  "js_string \<Rightarrow> js_string list \<Rightarrow> SaveOption \<Rightarrow> 'r AppState
     \<Rightarrow> 'r AppState \<times> Effect list" where
  "handleExecute_1 query dbs saveOption st =
     (if dbs = [] then (st, [ShowNotification NoDatabaseSelected])
      else if trim query = [] then (st, [ShowNotification EmptyQuery])
      else (st\<lparr>executionData := Some \<lparr>ed_query = query, ed_databases = dbs\<rparr>,
               screen := Execution\<rparr>,
            [ExecuteQueryOnDatabases
               \<lparr>arg_connection = selectedConnection st, arg_databases = dbs,
                arg_query = query, arg_saveOption = saveOption, arg_stopOnError = None\<rparr>]))"

text \<open>
  \<open>handleSaveOptionSelect\<close> of \<open>QueryScreen\<close>, the only caller of \<open>onExecute\<close>:
  \<open>const selectedDbs = databases.filter(db => db.checked).map(db => db.name)\<close>.
\<close>

definition selectedDbs :: "DatabaseEntry list \<Rightarrow> js_string list" where
  "selectedDbs dbs = map db_name (filter db_checked dbs)"

definition handleSaveOptionSelect ::
  "js_string \<Rightarrow> SaveOption \<Rightarrow> bool \<Rightarrow> 'r AppState \<Rightarrow> 'r AppState \<times> Effect list" where
  "handleSaveOptionSelect query saveOption stopOnErrorFlag st =
     handleExecute query (selectedDbs (databases st)) saveOption stopOnErrorFlag st"

definition handleSaveOptionSelect_1 ::
  "js_string \<Rightarrow> SaveOption \<Rightarrow> 'r AppState \<Rightarrow> 'r AppState \<times> Effect list" where
  "handleSaveOptionSelect_1 query saveOption st =
     handleExecute_1 query (selectedDbs (databases st)) saveOption st"

text \<open>
  \<open>{screen === 'execution' && executionData &&
     <ExecutionScreen databases={executionData.databases} ... />}\<close>:
  the results the execution screen starts with, when it is shown.
\<close>

definition ExecutionScreen :: "'r AppState \<Rightarrow> Session option" where
  "ExecutionScreen st =
     (if screen st = Execution
      then (case executionData st of
              None \<Rightarrow> None
            | Some ed \<Rightarrow> Some (initialResults (ed_databases ed)))
      else None)"

definition ExecutionScreen_1 :: "'r AppState \<Rightarrow> Session_1 option" where
  "ExecutionScreen_1 st =
     (if screen st = Execution
      then (case executionData st of
              None \<Rightarrow> None
            | Some ed \<Rightarrow> Some (initialResults_1 (ed_databases ed)))
      else None)"

text \<open>
  The handlers of the way back from the execution screen, the same in both revisions:
  what each handler writes itself. Both end with \<open>setScreen('query')\<close>; the effect of \<open>App\<close>
  that this change of screen re-runs is \<open>databasesEffect\<close> below, and an operation of the
  way back is the handler followed by that effect.
\<close>

definition handleBackFromExecution ::
  "'r DatabaseStatus list \<Rightarrow> 'r AppState \<Rightarrow> 'r AppState" where
  "handleBackFromExecution results st =
     st\<lparr>lastExecutionResults := Some results, isReturnModalOpen := True\<rparr>"

definition handleReturnSelectPrevious :: "'r AppState \<Rightarrow> 'r AppState" where
  "handleReturnSelectPrevious st = st\<lparr>isReturnModalOpen := False, screen := Query\<rparr>"

text \<open>
  \<open>new Set(lastExecutionResults.filter(r => r.status === 'error').map(r => r.name))\<close>
\<close>

definition errorDbNames :: "'r DatabaseStatus list \<Rightarrow> js_string set" where
  "errorDbNames results = set (map ds_name (filter (\<lambda>r. ds_status r = Error) results))"

definition handleReturnSelectErrors :: "'r AppState \<Rightarrow> 'r AppState" where
  "handleReturnSelectErrors st =
     (case lastExecutionResults st of
        None \<Rightarrow> st
      | Some results \<Rightarrow>
          st\<lparr>databases :=
               map (\<lambda>db. db\<lparr>db_checked := db_name db \<in> errorDbNames results\<rparr>)
                 (databases st)\<rparr>)
     \<lparr>isReturnModalOpen := False, screen := Query\<rparr>"

section \<open>What runs after a handler: the effects of the components\<close>

text \<open>
  React runs an event handler to the end, renders the components with the new state and
  then runs the effects of the components whose dependencies changed. The effect of
  \<open>ExecutionScreen\<close> (dependency \<open>databases\<close>, so it runs when the screen is mounted)
  resets the results and requests the listener:
  \<open>listen<DatabaseStatus>('execution-status-update', ...)\<close>. The screen is mounted only
  under \<open>screen === 'execution' && executionData\<close>.
\<close>

datatype Step = HandlerEffect Effect | ListenExecutionStatusUpdate

definition ExecutionScreen_effect :: "'r AppState \<Rightarrow> Step list" where
  "ExecutionScreen_effect st =
     (if screen st = Execution \<and> executionData st \<noteq> None
      then [ListenExecutionStatusUpdate] else [])"

text \<open>
  The calls that one click on a save option issues, in the order in which they are
  issued: those of \<open>handleExecute\<close>, then those of the effect of the screen that the
  handler made visible.
\<close>

definition dispatch_trace ::
  "js_string \<Rightarrow> js_string list \<Rightarrow> SaveOption \<Rightarrow> bool \<Rightarrow> 'r AppState \<Rightarrow> Step list" where
  "dispatch_trace query dbs saveOption stopOnError st =
     map HandlerEffect (snd (handleExecute query dbs saveOption stopOnError st))
     @ ExecutionScreen_effect (fst (handleExecute query dbs saveOption stopOnError st))"

definition dispatch_trace_1 ::
  "js_string \<Rightarrow> js_string list \<Rightarrow> SaveOption \<Rightarrow> 'r AppState \<Rightarrow> Step list" where
  "dispatch_trace_1 query dbs saveOption st =
     map HandlerEffect (snd (handleExecute_1 query dbs saveOption st))
     @ ExecutionScreen_effect (fst (handleExecute_1 query dbs saveOption st))"

text \<open>\<open>interface DatabaseInfo { name: string; status: number }\<close>\<close>

record DatabaseInfo =
  info_name :: js_string
  info_status :: int

text \<open>The decimal digits of an array index, as the template \<open>`db-${index}`\<close> writes it.\<close>

fun decimal :: "nat \<Rightarrow> js_string" where
  "decimal n =
     (if n < 10 then [0x30 + of_nat n]
      else decimal (n div 10) @ [0x30 + of_nat (n mod 10)])"

declare decimal.simps [simp del]

text \<open>
  \<open>Array.prototype.sort(compare)\<close> is stable: an element goes before the first element
  that \<open>compare\<close> puts after it, so behind the equal elements that came earlier.
\<close>

fun insertSorted :: "('a \<Rightarrow> 'a \<Rightarrow> int) \<Rightarrow> 'a \<Rightarrow> 'a list \<Rightarrow> 'a list" where
  "insertSorted compare x [] = [x]"
| "insertSorted compare x (y # ys) =
     (if compare x y < 0 then x # y # ys else y # insertSorted compare x ys)"

definition sort_js :: "('a \<Rightarrow> 'a \<Rightarrow> int) \<Rightarrow> 'a list \<Rightarrow> 'a list" where
  "sort_js compare xs = foldl (\<lambda>sorted x. insertSorted compare x sorted) [] xs"

text \<open>
  \<open>dbInfos.map((db, index) => ({ id: `db-${index}`, name: db.name, checked: true,
     status: db.status })).sort((a, b) => a.name.localeCompare(b.name))\<close>.
  \<open>localeCompare\<close> depends on the locale of the browser and is a parameter.
\<close>

definition formattedDbs ::
  "(js_string \<Rightarrow> js_string \<Rightarrow> int) \<Rightarrow> DatabaseInfo list \<Rightarrow> DatabaseEntry list" where
  "formattedDbs localeCompare dbInfos =
     sort_js (\<lambda>a b. localeCompare (db_name a) (db_name b))
       (map (\<lambda>(index, db).
               \<lparr>db_id = [0x64, 0x62, 0x2D] @ decimal index, db_name = info_name db,
                db_checked = True, db_status = info_status db\<rparr>)
          (enumerate 0 dbInfos))"

text \<open>How the promise of \<open>invoke('get_databases', ...)\<close> settles.\<close>

datatype FetchOutcome = Resolved "DatabaseInfo list" | Rejected js_string

text \<open>
  The effect of \<open>App\<close> with the dependencies \<open>[screen, selectedConnection]\<close> in the current
  revision, taken together with the settlement of its fetch:
  \<open>if (screen === 'query' && selectedConnection) { setIsLoadingDatabases(true);
     setDbError(null); invoke('get_databases', ...).then(dbInfos => setDatabases(formattedDbs))
     .catch(err => setDbError(err)).finally(() => setIsLoadingDatabases(false)) }\<close>.
  It runs after every render in which \<open>screen\<close> or \<open>selectedConnection\<close> changed, so after
  each of the two handlers of the way back, which set the screen from \<open>'execution'\<close> to
  \<open>'query'\<close>.
\<close>

definition databasesEffect ::
  "(js_string \<Rightarrow> js_string \<Rightarrow> int) \<Rightarrow> FetchOutcome \<Rightarrow> 'r AppState \<Rightarrow> 'r AppState" where
  "databasesEffect localeCompare outcome st =
     (if screen st = Query \<and> selectedConnection st \<noteq> None
      then (case outcome of
              Resolved dbInfos \<Rightarrow>
                st\<lparr>dbError := None, databases := formattedDbs localeCompare dbInfos,
                   isLoadingDatabases := False\<rparr>
            | Rejected err \<Rightarrow> st\<lparr>dbError := Some err, isLoadingDatabases := False\<rparr>)
      else st)"

text \<open>
  The same effect in the earlier revision, with the dependencies
  \<open>[screen, selectedConnection, databases.length]\<close> and the guard
  \<open>screen === 'query' && selectedConnection && databases.length === 0\<close>, which its comment
  explains: the list is fetched only when it has not been loaded, so that it is not
  reset on the way back from the execution screen.
\<close>

definition databasesEffect_1 ::
  "(js_string \<Rightarrow> js_string \<Rightarrow> int) \<Rightarrow> FetchOutcome \<Rightarrow> 'r AppState \<Rightarrow> 'r AppState" where
  "databasesEffect_1 localeCompare outcome st =
     (if screen st = Query \<and> selectedConnection st \<noteq> None \<and> databases st = []
      then (case outcome of
              Resolved dbInfos \<Rightarrow>
                st\<lparr>dbError := None, databases := formattedDbs localeCompare dbInfos,
                   isLoadingDatabases := False\<rparr>
            | Rejected err \<Rightarrow> st\<lparr>dbError := Some err, isLoadingDatabases := False\<rparr>)
      else st)"

section \<open>Example values\<close>

text \<open>
  The names "db1", "db2", "db3" and "db9", the script "SELECT 1", the diagnostic
  "timeout" and a state of the query screen with one connection and the three databases
  checked.
\<close>

abbreviation (input) db1 :: js_string where "db1 \<equiv> [0x64, 0x62, 0x31]"
abbreviation (input) db2 :: js_string where "db2 \<equiv> [0x64, 0x62, 0x32]"
abbreviation (input) db3 :: js_string where "db3 \<equiv> [0x64, 0x62, 0x33]"
abbreviation (input) db9 :: js_string where "db9 \<equiv> [0x64, 0x62, 0x39]"

abbreviation (input) select_1 :: js_string where
  "select_1 \<equiv> [0x53, 0x45, 0x4C, 0x45, 0x43, 0x54, 0x20, 0x31]"

abbreviation (input) timeout :: js_string where
  "timeout \<equiv> [0x74, 0x69, 0x6D, 0x65, 0x6F, 0x75, 0x74]"

abbreviation (input) conn1 :: Connection where
  "conn1 \<equiv> \<lparr>conn_id = [0x31], conn_name = [0x63], conn_host = [0x68], conn_port = [0x35],
            conn_user = [0x75], conn_pass = [], conn_savePass = False\<rparr>"

abbreviation (input) query_state :: "js_string option \<Rightarrow> ExecutionResult list AppState" where
  "query_state sel \<equiv>
     \<lparr>screen = Query, connections = [conn1],
      databases =
        [\<lparr>db_id = [0x30], db_name = db1, db_checked = True, db_status = 0\<rparr>,
         \<lparr>db_id = [0x31], db_name = db2, db_checked = True, db_status = 0\<rparr>,
         \<lparr>db_id = [0x32], db_name = db3, db_checked = True, db_status = 0\<rparr>],
      selectedConnectionId = sel, executionData = None, isReturnModalOpen = False,
      lastExecutionResults = None, isLoadingDatabases = False, dbError = None\<rparr>"

abbreviation (input) note_db3 :: "ExecutionResult list DatabaseStatus" where
  "note_db3 \<equiv> \<lparr>ds_name = db3, ds_status = Success, ds_log = None,
               ds_results = [SelectResult \<lparr>headers = [[0x31]], rows = [[[0x31]]]\<rparr>]\<rparr>"

abbreviation (input) note_db1 :: "ExecutionResult list DatabaseStatus" where
  "note_db1 \<equiv> \<lparr>ds_name = db1, ds_status = Error, ds_log = Some timeout, ds_results = []\<rparr>"

abbreviation (input) note_db2 :: "ExecutionResult list DatabaseStatus" where
  "note_db2 \<equiv> \<lparr>ds_name = db2, ds_status = Success, ds_log = None,
               ds_results = [MutationResult 0]\<rparr>"

text \<open>
  The state on the way back from a run dispatched from \<open>query_state\<close> with the script
  "SELECT 1", when the execution screen hands over the results \<open>rs\<close>.
\<close>

abbreviation (input) after_run :: "Session \<Rightarrow> ExecutionResult list AppState" where
  "after_run rs \<equiv>
     handleBackFromExecution rs
       (fst (handleSaveOptionSelect select_1 NoSave False (query_state (Some [0x31]))))"

abbreviation (input) run_results :: "ExecutionResult list DatabaseStatus list \<Rightarrow> Session" where
  "run_results ps \<equiv> execution_status_updates ps (initialResults [db1, db2, db3])"

text \<open>
  The answer of the back end to \<open>get_databases\<close> with the three databases, and the way
  back from a run dispatched with "db2" unchecked.
\<close>

abbreviation (input) db_infos :: "DatabaseInfo list" where
  "db_infos \<equiv> [\<lparr>info_name = db1, info_status = 0\<rparr>, \<lparr>info_name = db2, info_status = 0\<rparr>,
               \<lparr>info_name = db3, info_status = 0\<rparr>]"

abbreviation (input) partial_state :: "ExecutionResult list AppState" where
  "partial_state \<equiv>
     \<lparr>screen = Query, connections = [conn1],
      databases =
        [\<lparr>db_id = [0x30], db_name = db1, db_checked = True, db_status = 0\<rparr>,
         \<lparr>db_id = [0x31], db_name = db2, db_checked = False, db_status = 0\<rparr>,
         \<lparr>db_id = [0x32], db_name = db3, db_checked = True, db_status = 0\<rparr>],
      selectedConnectionId = Some [0x31], executionData = None, isReturnModalOpen = False,
      lastExecutionResults = None, isLoadingDatabases = False, dbError = None\<rparr>"

abbreviation (input) after_partial_run :: "ExecutionResult list AppState" where
  "after_partial_run \<equiv>
     handleBackFromExecution
       (execution_status_updates [note_db3, note_db1] (initialResults [db1, db3]))
       (fst (handleSaveOptionSelect select_1 NoSave False partial_state))"

section \<open>Properties of the listener\<close>

lemma update_names:
  "map ds_name (execution_status_update p s) = map ds_name s"
  by (induction s) (simp_all add: execution_status_update_def)

lemma updates_names:
  "map ds_name (execution_status_updates ps s) = map ds_name s"
  unfolding execution_status_updates_def
  by (induction ps arbitrary: s) (simp_all add: update_names)

lemma initialResults_names: "map ds_name (initialResults T) = T"
  by (induction T) (simp_all add: initialResults_def)

lemma initialResults_1_names: "map ds_name (initialResults_1 T) = T"
  by (induction T) (simp_all add: initialResults_1_def)

text \<open>
  Claim C2. A notification whose target name is the name of no entry of the session leaves
  the session as it was; the listener is a total function, so nothing is raised.
\<close>

theorem stale_notification_ignored:
  "ds_name p \<notin> set (map ds_name s) \<Longrightarrow> execution_status_update p s = s"
  by (induction s) (auto simp: execution_status_update_def)

theorem stale_notification_ignored_witness:
  "ds_name \<lparr>ds_name = db9, ds_status = Success, ds_log = None,
             ds_results = [MutationResult 0]\<rparr>
     \<notin> set (map ds_name (run_results [note_db3, note_db1]))
   \<and> execution_status_update
       \<lparr>ds_name = db9, ds_status = Success, ds_log = None, ds_results = [MutationResult 0]\<rparr>
       (run_results [note_db3, note_db1])
     = run_results [note_db3, note_db1]"
proof -
  have stale: "ds_name \<lparr>ds_name = db9, ds_status = Success, ds_log = None,
             ds_results = [MutationResult 0]\<rparr>
     \<notin> set (map ds_name (run_results [note_db3, note_db1]))"
    by (simp add: execution_status_updates_def execution_status_update_def
        initialResults_def)
  from stale stale_notification_ignored [OF stale] show ?thesis
    by (rule conjI)
qed

text \<open>
  Claim C3. Applying the same notification twice in succession gives the same session as
  applying it once, for every session and every payload.
\<close>

theorem notification_idempotent:
  "execution_status_update p (execution_status_update p s) = execution_status_update p s"
  by (induction s) (simp_all add: execution_status_update_def)

text \<open>
  Claim C9. No notification adds or removes an entry or changes the order of the names:
  the list of names after any sequence of notifications is the list of names before it,
  and for a session created for the dispatched list \<open>T\<close> it is \<open>T\<close> itself.
\<close>

theorem session_names_fixed:
  "map ds_name (execution_status_update p s) = map ds_name s
   \<and> map ds_name (execution_status_updates ps s) = map ds_name s
   \<and> map ds_name (execution_status_updates ps (initialResults T)) = T
   \<and> map ds_name (execution_status_updates ps_1 (initialResults_1 T)) = T"
  by (simp add: update_names updates_names initialResults_names initialResults_1_names)

text \<open>
  Claim C1, as stated, fails: the listener overwrites the entry with whatever snapshot
  arrives, so a later \<open>waiting\<close> snapshot for "db1" puts the target back to waiting after
  it succeeded, and a later \<open>error\<close> snapshot flips it from success to error.
\<close>

theorem terminal_phase_regresses:
  "map ds_status (execution_status_updates
       [\<lparr>ds_name = db1, ds_status = Success, ds_log = None, ds_results = [MutationResult 0]\<rparr>]
       (initialResults [db1])) = [Success]
   \<and> map ds_status (execution_status_updates
       [\<lparr>ds_name = db1, ds_status = Success, ds_log = None, ds_results = [MutationResult 0]\<rparr>,
        \<lparr>ds_name = db1, ds_status = Waiting, ds_log = None, ds_results = []\<rparr>]
       (initialResults [db1])) = [Waiting]
   \<and> map ds_status (execution_status_updates
       [\<lparr>ds_name = db1, ds_status = Success, ds_log = None, ds_results = [MutationResult 0]\<rparr>,
        note_db1]
       (initialResults [db1])) = [Error]"
  by (simp add: execution_status_updates_def execution_status_update_def initialResults_def)

text \<open>
  Claim C1, amended. The phase of an entry after a notification is the notification's
  phase when the names are equal and the entry's own phase otherwise (last write wins).
  So a target in a terminal phase keeps it under every notification for another target
  and under every notification for itself that carries the same phase.
\<close>

theorem terminal_phase_last_write_wins:
  assumes "i < length s" and "ds_status (s ! i) = Success \<or> ds_status (s ! i) = Error"
  shows "length (execution_status_update p s) = length s
    \<and> ds_status (execution_status_update p s ! i) =
        (if ds_name (s ! i) = ds_name p then ds_status p else ds_status (s ! i))
    \<and> (ds_name p \<noteq> ds_name (s ! i) \<or> ds_status p = ds_status (s ! i)
        \<longrightarrow> ds_status (execution_status_update p s ! i) = ds_status (s ! i))"
  using assms by (auto simp: execution_status_update_def)

theorem terminal_phase_last_write_wins_witness:
  "(1::nat) < length (execution_status_updates [note_db3, note_db1] (initialResults [db3, db1]))
   \<and> ds_status (execution_status_updates [note_db3, note_db1] (initialResults [db3, db1]) ! 1)
       = Error
   \<and> ds_name note_db2
       \<noteq> ds_name (execution_status_updates [note_db3, note_db1] (initialResults [db3, db1]) ! 1)
   \<and> ds_status (execution_status_update note_db2
         (execution_status_updates [note_db3, note_db1] (initialResults [db3, db1])) ! 1)
       = Error"
proof -
  let ?s = "execution_status_updates [note_db3, note_db1] (initialResults [db3, db1])"
  have len: "(1::nat) < length ?s"
    by (simp add: execution_status_updates_def execution_status_update_def initialResults_def)
  have err: "ds_status (?s ! 1) = Error"
    by (simp add: execution_status_updates_def execution_status_update_def initialResults_def)
  have other: "ds_name note_db2 \<noteq> ds_name (?s ! 1)"
    by (simp add: execution_status_updates_def execution_status_update_def initialResults_def)
  from err have terminal: "ds_status (?s ! 1) = Success \<or> ds_status (?s ! 1) = Error"
    by (rule disjI2)
  from terminal_phase_last_write_wins [OF len terminal, of note_db2] other err
  have "ds_status (execution_status_update note_db2 ?s ! 1) = Error"
    by simp
  with len err other show ?thesis
    by (intro conjI)
qed

text \<open>
  Claim C4. A dispatch that is accepted shows the execution screen with the results
  \<open>initialResults T\<close> for the dispatched list \<open>T\<close>; that list has one entry for each element
  of \<open>T\<close>, in the order of \<open>T\<close>, and no other entry (so one entry for each name when the
  names of \<open>T\<close> are distinct), and each entry is waiting, has no log and has an empty
  list of results. In the earlier revision the entry has no result instead.
\<close>

theorem session_at_dispatch:
  assumes "T \<noteq> []"
  shows "map ds_name (initialResults T) = T
    \<and> length (initialResults T) = length T
    \<and> (distinct T \<longrightarrow> distinct (map ds_name (initialResults T)))
    \<and> (\<forall>r \<in> set (initialResults T).
          ds_status r = Waiting \<and> ds_log r = None \<and> ds_results r = [])
    \<and> (selectedConnection st \<noteq> None \<and> trim query \<noteq> []
        \<longrightarrow> ExecutionScreen (fst (handleExecute query T saveOption stopOnError st))
            = Some (initialResults T))
    \<and> map ds_name (initialResults_1 T) = T
    \<and> (\<forall>r \<in> set (initialResults_1 T).
          ds_status r = Waiting \<and> ds_log r = None \<and> ds_results r = None)
    \<and> (trim query \<noteq> []
        \<longrightarrow> ExecutionScreen_1 (fst (handleExecute_1 query T saveOption st))
            = Some (initialResults_1 T))"
proof (intro conjI)
  show "map ds_name (initialResults T) = T"
    by (rule initialResults_names)
  show "length (initialResults T) = length T"
    by (simp add: initialResults_def)
  show "distinct T \<longrightarrow> distinct (map ds_name (initialResults T))"
    by (simp add: initialResults_names)
  show "\<forall>r \<in> set (initialResults T).
          ds_status r = Waiting \<and> ds_log r = None \<and> ds_results r = []"
    by (auto simp: initialResults_def)
  show "selectedConnection st \<noteq> None \<and> trim query \<noteq> []
        \<longrightarrow> ExecutionScreen (fst (handleExecute query T saveOption stopOnError st))
            = Some (initialResults T)"
    using assms by (auto simp: handleExecute_def ExecutionScreen_def split: option.splits)
  show "map ds_name (initialResults_1 T) = T"
    by (rule initialResults_1_names)
  show "\<forall>r \<in> set (initialResults_1 T).
          ds_status r = Waiting \<and> ds_log r = None \<and> ds_results r = None"
    by (auto simp: initialResults_1_def)
  show "trim query \<noteq> []
        \<longrightarrow> ExecutionScreen_1 (fst (handleExecute_1 query T saveOption st))
            = Some (initialResults_1 T)"
    using assms by (simp add: handleExecute_1_def ExecutionScreen_1_def)
qed

theorem session_at_dispatch_witness:
  "[db1, db2, db3] \<noteq> [] \<and> distinct [db1, db2, db3]
   \<and> selectedConnection (query_state (Some [0x31])) \<noteq> None
   \<and> trim select_1 \<noteq> []
   \<and> ExecutionScreen (fst (handleExecute select_1 [db1, db2, db3] NoSave False
         (query_state (Some [0x31])))) = Some (initialResults [db1, db2, db3])
   \<and> ExecutionScreen_1 (fst (handleExecute_1 select_1 [db1, db2, db3] NoSave
         (query_state (Some [0x31])))) = Some (initialResults_1 [db1, db2, db3])
   \<and> initialResults [db1, db2, db3] =
       [\<lparr>ds_name = db1, ds_status = Waiting, ds_log = None, ds_results = []\<rparr>,
        \<lparr>ds_name = db2, ds_status = Waiting, ds_log = None, ds_results = []\<rparr>,
        \<lparr>ds_name = db3, ds_status = Waiting, ds_log = None, ds_results = []\<rparr>]"
proof -
  have nonempty: "[db1, db2, db3] \<noteq> []"
    by simp
  have names: "distinct [db1, db2, db3]"
    by simp
  have conn: "selectedConnection (query_state (Some [0x31])) \<noteq> None"
    by (simp add: selectedConnection_def)
  have script: "trim select_1 \<noteq> []"
    by (simp add: trim_def isWhiteSpace_def)
  have init: "initialResults [db1, db2, db3] =
       [\<lparr>ds_name = db1, ds_status = Waiting, ds_log = None, ds_results = []\<rparr>,
        \<lparr>ds_name = db2, ds_status = Waiting, ds_log = None, ds_results = []\<rparr>,
        \<lparr>ds_name = db3, ds_status = Waiting, ds_log = None, ds_results = []\<rparr>]"
    by (simp add: initialResults_def)
  note at = session_at_dispatch [OF nonempty, of "query_state (Some [0x31])" select_1 NoSave False]
  from at conn script
  have shown: "ExecutionScreen (fst (handleExecute select_1 [db1, db2, db3] NoSave False
         (query_state (Some [0x31])))) = Some (initialResults [db1, db2, db3])"
    by blast
  from at script
  have shown_1: "ExecutionScreen_1 (fst (handleExecute_1 select_1 [db1, db2, db3] NoSave
         (query_state (Some [0x31])))) = Some (initialResults_1 [db1, db2, db3])"
    by blast
  from nonempty names conn script shown shown_1 init show ?thesis
    by (intro conjI)
qed

lemma trim_Nil_iff: "trim s = [] \<longleftrightarrow> (\<forall>c \<in> set s. isWhiteSpace c)"
proof
  assume "trim s = []"
  then have all_rest: "\<forall>c \<in> set (dropWhile isWhiteSpace s). isWhiteSpace c"
    by (auto simp: trim_def dropWhile_eq_Nil_conv dest: set_dropWhileD)
  have "dropWhile isWhiteSpace s = []"
  proof (rule ccontr)
    assume rest: "dropWhile isWhiteSpace s \<noteq> []"
    then have "\<not> isWhiteSpace (hd (dropWhile isWhiteSpace s))"
      by (rule hd_dropWhile)
    moreover from rest have "hd (dropWhile isWhiteSpace s) \<in> set (dropWhile isWhiteSpace s)"
      by (rule hd_in_set)
    ultimately show False
      using all_rest by blast
  qed
  then show "\<forall>c \<in> set s. isWhiteSpace c"
    by (simp add: dropWhile_eq_Nil_conv)
next
  assume "\<forall>c \<in> set s. isWhiteSpace c"
  then show "trim s = []"
    by (auto simp: trim_def dropWhile_eq_Nil_conv dest: set_dropWhileD)
qed

text \<open>
  Claim C5. When the script is empty or consists of white space only, or when the list of
  targets is empty, \<open>handleExecute\<close> leaves the state as it is and its only effect is a
  notification to the operator: no \<open>invoke\<close> is issued, neither to the execution engine
  nor to the history. This holds in both revisions.
\<close>

theorem dispatch_validation:
  assumes "(\<forall>c \<in> set query. isWhiteSpace c) \<or> dbs = []"
  shows "handleExecute query dbs saveOption stopOnError st
           = (st, [ShowNotification CheckConnectionDatabasesQuery])
    \<and> filter isInvoke (snd (handleExecute query dbs saveOption stopOnError st)) = []
    \<and> (handleExecute_1 query dbs saveOption st = (st, [ShowNotification NoDatabaseSelected])
       \<or> handleExecute_1 query dbs saveOption st = (st, [ShowNotification EmptyQuery]))
    \<and> filter isInvoke (snd (handleExecute_1 query dbs saveOption st)) = []"
proof -
  from assms have rejected: "dbs = [] \<or> trim query = []"
    by (auto simp: trim_Nil_iff)
  then have current: "handleExecute query dbs saveOption stopOnError st
           = (st, [ShowNotification CheckConnectionDatabasesQuery])"
    by (auto simp: handleExecute_def split: option.splits)
  from rejected
  have earlier: "handleExecute_1 query dbs saveOption st = (st, [ShowNotification NoDatabaseSelected])
       \<or> handleExecute_1 query dbs saveOption st = (st, [ShowNotification EmptyQuery])"
    by (auto simp: handleExecute_1_def)
  from current have no_call: "filter isInvoke (snd (handleExecute query dbs saveOption stopOnError st)) = []"
    by simp
  from earlier have no_call_1: "filter isInvoke (snd (handleExecute_1 query dbs saveOption st)) = []"
    by auto
  from current no_call earlier no_call_1 show ?thesis
    by (intro conjI)
qed

theorem dispatch_validation_witness:
  "isWhiteSpace 0x20 \<and> isWhiteSpace 0x09 \<and> isWhiteSpace 0x0A \<and> isWhiteSpace 0x3000
   \<and> handleExecute [0x20, 0x09, 0x0A, 0x3000] [db1, db2, db3] NoSave False
         (query_state (Some [0x31]))
       = (query_state (Some [0x31]), [ShowNotification CheckConnectionDatabasesQuery])
   \<and> handleExecute_1 [0x20, 0x09, 0x0A, 0x3000] [db1, db2, db3] NoSave
         (query_state (Some [0x31]))
       = (query_state (Some [0x31]), [ShowNotification EmptyQuery])
   \<and> handleExecute select_1 [] NoSave False (query_state (Some [0x31]))
       = (query_state (Some [0x31]), [ShowNotification CheckConnectionDatabasesQuery])
   \<and> handleExecute_1 select_1 [] NoSave (query_state (Some [0x31]))
       = (query_state (Some [0x31]), [ShowNotification NoDatabaseSelected])"
proof -
  have blank: "\<forall>c \<in> set [0x20, 0x09, 0x0A, 0x3000]. isWhiteSpace c"
    by (simp add: isWhiteSpace_def)
  then have hyp: "(\<forall>c \<in> set [0x20, 0x09, 0x0A, 0x3000]. isWhiteSpace c)
      \<or> [db1, db2, db3] = []"
    by (rule disjI1)
  have hyp': "(\<forall>c \<in> set select_1. isWhiteSpace c) \<or> ([] :: js_string list) = []"
    by simp
  note a = dispatch_validation [OF hyp, of NoSave False "query_state (Some [0x31])"]
  note b = dispatch_validation [OF hyp', of NoSave False "query_state (Some [0x31])"]
  from a have a0: "handleExecute [0x20, 0x09, 0x0A, 0x3000] [db1, db2, db3] NoSave False
         (query_state (Some [0x31]))
       = (query_state (Some [0x31]), [ShowNotification CheckConnectionDatabasesQuery])"
    by (rule conjunct1)
  from b have b0: "handleExecute select_1 [] NoSave False (query_state (Some [0x31]))
       = (query_state (Some [0x31]), [ShowNotification CheckConnectionDatabasesQuery])"
    by (rule conjunct1)
  have a1: "handleExecute_1 [0x20, 0x09, 0x0A, 0x3000] [db1, db2, db3] NoSave
         (query_state (Some [0x31]))
       = (query_state (Some [0x31]), [ShowNotification EmptyQuery])"
    using a by (simp add: handleExecute_1_def trim_def isWhiteSpace_def)
  have b1: "handleExecute_1 select_1 [] NoSave (query_state (Some [0x31]))
       = (query_state (Some [0x31]), [ShowNotification NoDatabaseSelected])"
    using b by (simp add: handleExecute_1_def trim_def isWhiteSpace_def)
  have units: "isWhiteSpace 0x20 \<and> isWhiteSpace 0x09 \<and> isWhiteSpace 0x0A
      \<and> isWhiteSpace 0x3000"
    using blank by simp
  from units a0 a1 b0 b1 show ?thesis
    by (intro conjI) blast+
qed

text \<open>
  Claim C10. In the current revision \<open>handleExecute\<close> also rejects the dispatch when no
  connection is selected, whatever the script and the targets are: the state is unchanged
  and the only effect is the notification, so neither the execution engine nor the
  history is invoked.
\<close>

theorem dispatch_needs_connection:
  assumes "selectedConnection st = None"
  shows "handleExecute query dbs saveOption stopOnError st
           = (st, [ShowNotification CheckConnectionDatabasesQuery])
    \<and> filter isInvoke (snd (handleExecute query dbs saveOption stopOnError st)) = []"
  using assms by (simp add: handleExecute_def)

theorem dispatch_needs_connection_witness:
  "selectedConnection (query_state None) = None
   \<and> trim select_1 \<noteq> [] \<and> [db1, db2, db3] \<noteq> []
   \<and> handleExecute select_1 [db1, db2, db3] NoSave False (query_state None)
       = (query_state None, [ShowNotification CheckConnectionDatabasesQuery])
   \<and> filter isInvoke
       (snd (handleExecute select_1 [db1, db2, db3] NoSave False (query_state None))) = []"
proof -
  have none: "selectedConnection (query_state None) = None"
    by (simp add: selectedConnection_def)
  have script: "trim select_1 \<noteq> []"
    by (simp add: trim_def isWhiteSpace_def)
  have targets: "[db1, db2, db3] \<noteq> []"
    by simp
  note r = dispatch_needs_connection [OF none, of select_1 "[db1, db2, db3]" NoSave False]
  from r have r1: "handleExecute select_1 [db1, db2, db3] NoSave False (query_state None)
       = (query_state None, [ShowNotification CheckConnectionDatabasesQuery])"
    by (rule conjunct1)
  from r have r2: "filter isInvoke
       (snd (handleExecute select_1 [db1, db2, db3] NoSave False (query_state None))) = []"
    by (rule conjunct2)
  from none script targets r1 r2 show ?thesis
    by (intro conjI)
qed

lemma errorDbNames_subset_names: "errorDbNames rs \<subseteq> set (map ds_name rs)"
  by (auto simp: errorDbNames_def)

lemma selectedDbs_subset_names: "set (selectedDbs dbs) \<subseteq> set (map db_name dbs)"
  by (auto simp: selectedDbs_def)

lemma run_errors_known:
  assumes "map ds_name s0 = selectedDbs dbs"
  shows "errorDbNames (execution_status_updates ps s0) \<subseteq> set (map db_name dbs)"
proof -
  have "errorDbNames (execution_status_updates ps s0)
          \<subseteq> set (map ds_name (execution_status_updates ps s0))"
    by (rule errorDbNames_subset_names)
  also have "map ds_name (execution_status_updates ps s0) = selectedDbs dbs"
    using assms by (simp add: updates_names)
  also have "set (selectedDbs dbs) \<subseteq> set (map db_name dbs)"
    by (rule selectedDbs_subset_names)
  finally show ?thesis .
qed

lemma select_errors_databases:
  assumes "lastExecutionResults st = Some rs"
  shows "databases (handleReturnSelectErrors st) =
           map (\<lambda>db. db\<lparr>db_checked := db_name db \<in> errorDbNames rs\<rparr>) (databases st)"
  using assms by (simp add: handleReturnSelectErrors_def)

lemma checked_after_select_errors:
  "set (selectedDbs (map (\<lambda>db. db\<lparr>db_checked := db_name db \<in> E\<rparr>) dbs))
     = E \<inter> set (map db_name dbs)"
  by (induction dbs) (auto simp: selectedDbs_def)

text \<open>
  The handler \<open>handleReturnSelectErrors\<close> by itself, before any effect runs. With the
  results \<open>rs\<close> of the run recorded on the way back, it keeps the list of known databases
  and checks a database exactly when its name is that of an entry of \<open>rs\<close> in phase error;
  the names checked are exactly the error names of \<open>rs\<close> for the results of every run
  dispatched from the current selection; and with no entry in error nothing is checked.
\<close>

lemma handler_select_errors_only:
  assumes "lastExecutionResults st = Some rs"
  shows "errorDbNames rs = {ds_name r | r. r \<in> set rs \<and> ds_status r = Error}
    \<and> map db_name (databases (handleReturnSelectErrors st)) = map db_name (databases st)
    \<and> (\<forall>db \<in> set (databases (handleReturnSelectErrors st)).
          db_checked db \<longleftrightarrow> db_name db \<in> errorDbNames rs)
    \<and> (errorDbNames rs \<subseteq> set (map db_name (databases st))
        \<longrightarrow> set (selectedDbs (databases (handleReturnSelectErrors st))) = errorDbNames rs)
    \<and> (map ds_name s0 = selectedDbs (databases st) \<and> rs = execution_status_updates ps s0
        \<longrightarrow> set (selectedDbs (databases (handleReturnSelectErrors st))) = errorDbNames rs)
    \<and> (errorDbNames rs = {}
        \<longrightarrow> selectedDbs (databases (handleReturnSelectErrors st)) = [])"
proof (intro conjI)
  note dbs = select_errors_databases [OF assms]
  show "errorDbNames rs = {ds_name r | r. r \<in> set rs \<and> ds_status r = Error}"
    by (auto simp: errorDbNames_def)
  show "map db_name (databases (handleReturnSelectErrors st)) = map db_name (databases st)"
    by (simp add: dbs comp_def)
  show "\<forall>db \<in> set (databases (handleReturnSelectErrors st)).
          db_checked db \<longleftrightarrow> db_name db \<in> errorDbNames rs"
    by (auto simp: dbs)
  have checked: "set (selectedDbs (databases (handleReturnSelectErrors st)))
      = errorDbNames rs \<inter> set (map db_name (databases st))"
    by (simp only: dbs checked_after_select_errors)
  show "errorDbNames rs \<subseteq> set (map db_name (databases st))
        \<longrightarrow> set (selectedDbs (databases (handleReturnSelectErrors st))) = errorDbNames rs"
    using checked by blast
  show "map ds_name s0 = selectedDbs (databases st) \<and> rs = execution_status_updates ps s0
        \<longrightarrow> set (selectedDbs (databases (handleReturnSelectErrors st))) = errorDbNames rs"
    using checked run_errors_known [of s0 "databases st" ps] by blast
  show "errorDbNames rs = {}
        \<longrightarrow> selectedDbs (databases (handleReturnSelectErrors st)) = []"
  proof
    assume "errorDbNames rs = {}"
    with checked have "set (selectedDbs (databases (handleReturnSelectErrors st))) = {}"
      by simp
    then show "selectedDbs (databases (handleReturnSelectErrors st)) = []"
      by (simp only: set_empty)
  qed
qed

lemma handler_select_errors_only_example:
  "lastExecutionResults (after_run (run_results [note_db3, note_db1, note_db2]))
     = Some (run_results [note_db3, note_db1, note_db2])
   \<and> map ds_name (initialResults [db1, db2, db3])
       = selectedDbs (databases (after_run (run_results [note_db3, note_db1, note_db2])))
   \<and> errorDbNames (run_results [note_db3, note_db1, note_db2]) = {db1}
   \<and> set (selectedDbs (databases (handleReturnSelectErrors
         (after_run (run_results [note_db3, note_db1, note_db2]))))) = {db1}
   \<and> errorDbNames (run_results [note_db3, note_db2]) = {}
   \<and> selectedDbs (databases (handleReturnSelectErrors
         (after_run (run_results [note_db3, note_db2])))) = []"
proof -
  let ?rs = "run_results [note_db3, note_db1, note_db2]"
  let ?ok = "run_results [note_db3, note_db2]"
  have last: "lastExecutionResults (after_run ?rs) = Some ?rs"
    by (simp add: handleBackFromExecution_def)
  have last_ok: "lastExecutionResults (after_run ?ok) = Some ?ok"
    by (simp add: handleBackFromExecution_def)
  have names: "map ds_name (initialResults [db1, db2, db3])
       = selectedDbs (databases (after_run ?rs))"
    by (simp add: handleBackFromExecution_def handleSaveOptionSelect_def handleExecute_def
        selectedConnection_def selectedDbs_def initialResults_def trim_def isWhiteSpace_def)
  have errors: "errorDbNames ?rs = {db1}"
    by (simp add: errorDbNames_def execution_status_updates_def execution_status_update_def
        initialResults_def)
  have no_errors: "errorDbNames ?ok = {}"
    by (simp add: errorDbNames_def execution_status_updates_def execution_status_update_def
        initialResults_def)
  from handler_select_errors_only [OF last, of "initialResults [db1, db2, db3]"
      "[note_db3, note_db1, note_db2]"] names
  have "set (selectedDbs (databases (handleReturnSelectErrors (after_run ?rs))))
      = errorDbNames ?rs"
    by blast
  with errors have checked: "set (selectedDbs (databases (handleReturnSelectErrors
      (after_run ?rs)))) = {db1}"
    by simp
  from handler_select_errors_only [OF last_ok, of "initialResults [db1, db2, db3]"
      "[note_db3, note_db2]"] no_errors
  have none_checked: "selectedDbs (databases (handleReturnSelectErrors (after_run ?ok))) = []"
    by blast
  from last names errors checked no_errors none_checked show ?thesis
    by (intro conjI)
qed

text \<open>
  The handler \<open>handleReturnSelectPrevious\<close> by itself, before any effect runs, writes the
  flag of the return dialogue and the screen only.
\<close>

lemma handler_select_previous:
  "databases (handleReturnSelectPrevious st) = databases st
   \<and> selectedDbs (databases (handleReturnSelectPrevious st)) = selectedDbs (databases st)
   \<and> databases (handleReturnSelectPrevious (handleBackFromExecution rs
        (fst (handleExecute query dbs saveOption stopOnError st)))) = databases st
   \<and> databases (handleReturnSelectPrevious (handleBackFromExecution rs
        (fst (handleExecute_1 query dbs saveOption st)))) = databases st"
  by (simp add: handleReturnSelectPrevious_def handleBackFromExecution_def
      handleExecute_def handleExecute_1_def split: option.splits)

section \<open>The way back with the effect of the application\<close>

lemma set_insertSorted: "set (insertSorted compare x xs) = insert x (set xs)"
  by (induction xs) auto

lemma set_foldl_insertSorted:
  "set (foldl (\<lambda>sorted x. insertSorted compare x sorted) acc xs) = set acc \<union> set xs"
  by (induction xs arbitrary: acc) (simp_all add: set_insertSorted)

lemma set_sort_js: "set (sort_js compare xs) = set xs"
  by (simp add: sort_js_def set_foldl_insertSorted)

lemma formattedDbs_checked: "db \<in> set (formattedDbs localeCompare dbInfos) \<Longrightarrow> db_checked db"
  by (auto simp: formattedDbs_def set_sort_js)

lemma formattedDbs_names:
  "db_name ` set (formattedDbs localeCompare dbInfos) = set (map info_name dbInfos)"
proof -
  let ?entry = "\<lambda>(index, db). \<lparr>db_id = [0x64, 0x62, 0x2D] @ decimal index,
      db_name = info_name db, db_checked = True, db_status = info_status db\<rparr>"
  have names: "db_name \<circ> ?entry = info_name \<circ> snd"
    by (auto simp: fun_eq_iff)
  have "map db_name (map ?entry (enumerate 0 dbInfos))
      = map (info_name \<circ> snd) (enumerate 0 dbInfos)"
    by (simp only: map_map names)
  also have "\<dots> = map info_name (map snd (enumerate 0 dbInfos))"
    by (simp only: map_map)
  also have "\<dots> = map info_name dbInfos"
    by (simp only: map_snd_enumerate)
  finally have "set (map db_name (map ?entry (enumerate 0 dbInfos)))
      = set (map info_name dbInfos)"
    by (rule arg_cong)
  then have "db_name ` set (map ?entry (enumerate 0 dbInfos)) = set (map info_name dbInfos)"
    by (simp only: set_map)
  then show ?thesis
    by (simp only: formattedDbs_def set_sort_js)
qed

lemma selectedDbs_formattedDbs:
  "set (selectedDbs (formattedDbs localeCompare dbInfos)) = set (map info_name dbInfos)"
proof -
  have "filter db_checked (formattedDbs localeCompare dbInfos)
      = formattedDbs localeCompare dbInfos"
    by (rule filter_True) (simp add: formattedDbs_checked)
  then show ?thesis
    using formattedDbs_names [of localeCompare dbInfos] by (simp add: selectedDbs_def)
qed

lemma databasesEffect_resolved:
  assumes "screen st = Query" and "selectedConnection st \<noteq> None"
  shows "databases (databasesEffect localeCompare (Resolved dbInfos) st)
           = formattedDbs localeCompare dbInfos"
  using assms by (simp add: databasesEffect_def)

lemma selectedConnection_handleReturnSelectErrors:
  "selectedConnection (handleReturnSelectErrors st) = selectedConnection st"
  by (cases "lastExecutionResults st"; cases "selectedConnectionId st")
    (simp_all add: selectedConnection_def handleReturnSelectErrors_def)

lemma selectedConnection_handleReturnSelectPrevious:
  "selectedConnection (handleReturnSelectPrevious st) = selectedConnection st"
  by (cases "selectedConnectionId st")
    (simp_all add: selectedConnection_def handleReturnSelectPrevious_def)

lemma screen_handleReturnSelectErrors: "screen (handleReturnSelectErrors st) = Query"
  by (simp add: handleReturnSelectErrors_def split: option.splits)

lemma screen_handleReturnSelectPrevious: "screen (handleReturnSelectPrevious st) = Query"
  by (simp add: handleReturnSelectPrevious_def)

text \<open>
  In the current revision, once the fetch started on the way back has resolved, the
  names checked are all the names the back end returned, whichever handler ran and
  whatever the results of the run were.
\<close>

lemma refetch_after_select_errors:
  assumes "selectedConnection st \<noteq> None"
  shows "set (selectedDbs (databases
           (databasesEffect localeCompare (Resolved dbInfos) (handleReturnSelectErrors st))))
         = set (map info_name dbInfos)"
  using assms
  by (simp add: databasesEffect_resolved screen_handleReturnSelectErrors
      selectedConnection_handleReturnSelectErrors selectedDbs_formattedDbs)

lemma refetch_after_select_previous:
  assumes "selectedConnection st \<noteq> None"
  shows "set (selectedDbs (databases
           (databasesEffect localeCompare (Resolved dbInfos) (handleReturnSelectPrevious st))))
         = set (map info_name dbInfos)"
  using assms
  by (simp add: databasesEffect_resolved screen_handleReturnSelectPrevious
      selectedConnection_handleReturnSelectPrevious selectedDbs_formattedDbs)

text \<open>
  In the earlier revision the effect does nothing while the list of databases is not
  empty, so both handlers of the way back keep what they wrote.
\<close>

lemma databasesEffect_1_loaded:
  assumes "databases st \<noteq> []"
  shows "databasesEffect_1 localeCompare outcome st = st"
  using assms by (simp add: databasesEffect_1_def)

lemma earlier_revision_keeps_selection:
  assumes "databases st \<noteq> []"
  shows "databases (databasesEffect_1 localeCompare outcome (handleReturnSelectPrevious st))
           = databases st"
    and "lastExecutionResults st = Some rs \<Longrightarrow>
         databases (databasesEffect_1 localeCompare outcome (handleReturnSelectErrors st))
           = map (\<lambda>db. db\<lparr>db_checked := db_name db \<in> errorDbNames rs\<rparr>) (databases st)"
  using assms
  by (simp_all add: databasesEffect_1_def handleReturnSelectPrevious_def
      handleReturnSelectErrors_def)

text \<open>
  Claim C7 fails in the current revision. After the run of "SELECT 1" on "db1", "db2",
  "db3" in which only "db1" ended in error, the handler of "errors only" checks "db1"
  alone; it also sets the screen to \<open>'query'\<close>, which re-runs the effect of \<open>App\<close>, and
  when the fetch of that effect resolves with the three databases all three are checked,
  for every \<open>localeCompare\<close>. The selection the operator is left with is not the set of
  error names.
\<close>

theorem select_errors_reset_by_refetch:
  "errorDbNames (run_results [note_db3, note_db1, note_db2]) = {db1}
   \<and> selectedDbs (databases (handleReturnSelectErrors
         (after_run (run_results [note_db3, note_db1, note_db2])))) = [db1]
   \<and> set (selectedDbs (databases (databasesEffect localeCompare (Resolved db_infos)
         (handleReturnSelectErrors (after_run (run_results [note_db3, note_db1, note_db2]))))))
       = {db1, db2, db3}"
proof -
  let ?st = "after_run (run_results [note_db3, note_db1, note_db2])"
  have errors: "errorDbNames (run_results [note_db3, note_db1, note_db2]) = {db1}"
    by (simp add: errorDbNames_def execution_status_updates_def execution_status_update_def
        initialResults_def)
  have handler: "selectedDbs (databases (handleReturnSelectErrors ?st)) = [db1]"
    by (simp add: handleReturnSelectErrors_def handleBackFromExecution_def
        handleSaveOptionSelect_def handleExecute_def selectedConnection_def selectedDbs_def
        trim_def isWhiteSpace_def errorDbNames_def execution_status_updates_def
        execution_status_update_def initialResults_def)
  have conn: "selectedConnection ?st \<noteq> None"
    by (simp add: handleBackFromExecution_def handleSaveOptionSelect_def handleExecute_def
        selectedConnection_def selectedDbs_def trim_def isWhiteSpace_def)
  have "set (selectedDbs (databases (databasesEffect localeCompare (Resolved db_infos)
         (handleReturnSelectErrors ?st)))) = set (map info_name db_infos)"
    using conn by (rule refetch_after_select_errors)
  then have refetch: "set (selectedDbs (databases (databasesEffect localeCompare
         (Resolved db_infos) (handleReturnSelectErrors ?st)))) = {db1, db2, db3}"
    by simp
  from errors handler refetch show ?thesis
    by (intro conjI)
qed

text \<open>
  Claim C8 fails in the current revision. With "db2" unchecked before the dispatch, the
  handler of "previous selection" leaves "db1" and "db3" checked; it also sets the screen
  to \<open>'query'\<close>, which re-runs the effect of \<open>App\<close>, and when the fetch of that effect
  resolves with the three databases all three are checked, for every \<open>localeCompare\<close>:
  "db2" is checked although it was not before the dispatch.
\<close>

theorem select_previous_reset_by_refetch:
  "selectedDbs (databases partial_state) = [db1, db3]
   \<and> selectedDbs (databases (handleReturnSelectPrevious after_partial_run)) = [db1, db3]
   \<and> set (selectedDbs (databases (databasesEffect localeCompare (Resolved db_infos)
         (handleReturnSelectPrevious after_partial_run)))) = {db1, db2, db3}"
proof -
  have before: "selectedDbs (databases partial_state) = [db1, db3]"
    by (simp add: selectedDbs_def)
  have handler: "selectedDbs (databases (handleReturnSelectPrevious after_partial_run))
      = [db1, db3]"
    by (simp add: handleReturnSelectPrevious_def handleBackFromExecution_def
        handleSaveOptionSelect_def handleExecute_def selectedConnection_def selectedDbs_def
        trim_def isWhiteSpace_def)
  have conn: "selectedConnection after_partial_run \<noteq> None"
    by (simp add: handleBackFromExecution_def handleSaveOptionSelect_def handleExecute_def
        selectedConnection_def selectedDbs_def trim_def isWhiteSpace_def)
  have "set (selectedDbs (databases (databasesEffect localeCompare (Resolved db_infos)
         (handleReturnSelectPrevious after_partial_run)))) = set (map info_name db_infos)"
    using conn by (rule refetch_after_select_previous)
  then have refetch: "set (selectedDbs (databases (databasesEffect localeCompare
         (Resolved db_infos) (handleReturnSelectPrevious after_partial_run))))
      = {db1, db2, db3}"
    by simp
  from before handler refetch show ?thesis
    by (intro conjI)
qed

section \<open>The order of the engine call and the listener\<close>

lemma dispatch_trace_accepted:
  assumes "selectedConnection st = Some conn" and "dbs \<noteq> []" and "trim query \<noteq> []"
  shows "dispatch_trace query dbs saveOption stopOnError st =
    [HandlerEffect (AddQueryToHistory query (conn_name conn)),
     HandlerEffect (ExecuteQueryOnDatabases
       \<lparr>arg_connection = Some conn, arg_databases = dbs, arg_query = query,
        arg_saveOption = saveOption, arg_stopOnError = Some stopOnError\<rparr>),
     ListenExecutionStatusUpdate]"
  using assms by (simp add: dispatch_trace_def handleExecute_def ExecutionScreen_effect_def)

lemma dispatch_trace_1_accepted:
  assumes "dbs \<noteq> []" and "trim query \<noteq> []"
  shows "dispatch_trace_1 query dbs saveOption st =
    [HandlerEffect (ExecuteQueryOnDatabases
       \<lparr>arg_connection = selectedConnection st, arg_databases = dbs, arg_query = query,
        arg_saveOption = saveOption, arg_stopOnError = None\<rparr>),
     ListenExecutionStatusUpdate]"
  using assms by (simp add: dispatch_trace_1_def handleExecute_1_def ExecutionScreen_effect_def)

text \<open>
  Claim C6 fails in both revisions. For the dispatch of "SELECT 1" to "db1", "db2", "db3"
  the call that starts the execution engine is issued by \<open>handleExecute\<close>, and the listener
  is requested only afterwards, by the effect of the execution screen that the handler
  made visible: the request of the listener is the last step, behind the call of the
  engine. What the engine emits between the two steps has no listener.
\<close>

theorem listen_requested_after_engine_call:
  "dispatch_trace select_1 [db1, db2, db3] NoSave False (query_state (Some [0x31])) =
     [HandlerEffect (AddQueryToHistory select_1 [0x63]),
      HandlerEffect (ExecuteQueryOnDatabases
        \<lparr>arg_connection = Some conn1, arg_databases = [db1, db2, db3], arg_query = select_1,
         arg_saveOption = NoSave, arg_stopOnError = Some False\<rparr>),
      ListenExecutionStatusUpdate]
   \<and> dispatch_trace_1 select_1 [db1, db2, db3] NoSave (query_state (Some [0x31])) =
     [HandlerEffect (ExecuteQueryOnDatabases
        \<lparr>arg_connection = Some conn1, arg_databases = [db1, db2, db3], arg_query = select_1,
         arg_saveOption = NoSave, arg_stopOnError = None\<rparr>),
      ListenExecutionStatusUpdate]"
proof -
  have conn: "selectedConnection (query_state (Some [0x31])) = Some conn1"
    by (simp add: selectedConnection_def)
  have targets: "[db1, db2, db3] \<noteq> []"
    by simp
  have script: "trim select_1 \<noteq> []"
    by (simp add: trim_def isWhiteSpace_def)
  from dispatch_trace_accepted [OF conn targets script, of NoSave False]
    dispatch_trace_1_accepted [OF targets script, of NoSave "query_state (Some [0x31])"] conn
  show ?thesis
    by simp
qed

end
